theory Spec2Isabelle
  imports Main
begin

section \<open>Python strings\<close>

text \<open>
  A Python \<open>str\<close> is a sequence of Unicode code points and \<open>len\<close> counts code points,
  so a string is a list of code points given by their numbers. Text that the source
  writes as a literal is written as an Isabelle string and converted with \<open>lit\<close>.
\<close>

type_synonym codepoint = nat
type_synonym pystr = "codepoint list"

definition lit :: "string \<Rightarrow> pystr" where
  "lit s = map of_char s"

definition between :: "char \<Rightarrow> char \<Rightarrow> codepoint \<Rightarrow> bool" where
  "between lo hi c = (of_char lo \<le> c \<and> c \<le> of_char hi)"




section \<open>The VIN pattern\<close>

text \<open>The character class \<open>[A-HJ-NPR-Z0-9]\<close> of the pattern in \<open>get_vin\<close>.\<close>

definition vin_class :: "codepoint \<Rightarrow> bool" where
  "vin_class c =
     (between CHR ''A'' CHR ''H'' c \<or> between CHR ''J'' CHR ''N'' c \<or> c = of_char CHR ''P''
      \<or> between CHR ''R'' CHR ''Z'' c \<or> between CHR ''0'' CHR ''9'' c)"

text \<open>
  \<open>re.match(r'^[A-HJ-NPR-Z0-9]{17}$', vin)\<close>: seventeen characters of the class from the
  start of the string, then \<open>$\<close>, which Python matches at the end of the string and also
  just before a newline that ends the string.
\<close>

definition re_match_vin :: "pystr \<Rightarrow> bool" where
  "re_match_vin vin =
     (17 \<le> length vin \<and> list_all vin_class (take 17 vin)
      \<and> (drop 17 vin = [] \<or> drop 17 vin = [10]))"

text \<open>
  The alphabet of a VIN as the specification lists it: \<open>A\<close> to \<open>H\<close>, \<open>J\<close> to \<open>N\<close>, \<open>P\<close>,
  \<open>R\<close> to \<open>Z\<close> and the digits.
\<close>

definition spec_alphabet :: "codepoint set" where
  "spec_alphabet = set (lit ''ABCDEFGHJKLMNPRSTUVWXYZ0123456789'')"

section \<open>The page\<close>

text \<open>
  What a Streamlit call shows is an element of the page. The text of an element is kept
  as the pieces of the (f-)string that produced it: literal text of the source, a string
  computed at run time, or the result of \<open>capitalize()\<close> on a string (which again depends
  on the Unicode case tables and is left unevaluated). The calls of Streamlit themselves
  are taken to succeed; the two image files are expected beside the script.
\<close>

datatype piece = Lit string | Str pystr | Capitalized pystr

type_synonym fstring = "piece list"

datatype alert = Info | Success | Warning | Error

datatype element =
    Markdown fstring
  | Write fstring
  | Image string
  | Subheader fstring
  | Expander fstring "element list"
  | Text_input fstring
  | Button fstring
  | Alert alert fstring
  | Empty "element option"
  | Columns "element list" "element list"

section \<open>The lookup\<close>

text \<open>
  \<open>nhtsa_api_call.get_vehicle_info\<close> is an external helper and a parameter of the model.
  One call either raises or hands back year, make and model, each of them \<open>None\<close> or a
  string. \<open>Raised\<close> stands for every exception of class \<open>Exception\<close> that leaves line 43
  of the source, the statement \<open>year, make, model = nhtsa_api_call.get_vehicle_info(vin)\<close>:
  one raised by the helper, and the one raised by the unpacking when the helper returns
  something else than three values. An exception carries the text \<open>str(e)\<close>.
\<close>

datatype exn = Exception pystr

fun str_of :: "exn \<Rightarrow> pystr" where
  "str_of (Exception msg) = msg"

datatype outcome =
    Raised exn
  | Returned "pystr option" "pystr option" "pystr option"

text \<open>Truth value of a field in a boolean context, and its rendering inside an f-string.\<close>

definition truthy :: "pystr option \<Rightarrow> bool" where
  "truthy v = (case v of None \<Rightarrow> False | Some s \<Rightarrow> s \<noteq> [])"

definition format :: "pystr option \<Rightarrow> pystr" where
  "format v = (case v of None \<Rightarrow> lit ''None'' | Some s \<Rightarrow> s)"

section \<open>get_vin\<close>

text \<open>
  \<open>get_vin\<close> creates a placeholder (\<open>status_area = st.empty()\<close>) and two columns, and
  from then on only replaces the content of the placeholder and appends to the columns.
  The record holds the content of the three, and \<open>lookups\<close>, the arguments of the calls of
  \<open>get_vehicle_info\<close> made so far, in order.
\<close>

record widgets =
  status_area :: "element option"
  col1 :: "element list"
  col2 :: "element list"
  lookups :: "pystr list"

definition wrong_length :: element where
  "wrong_length = Alert Error [Lit ''VIN must be exactly 17 characters long.'']"

definition wrong_alphabet :: element where
  "wrong_alphabet =
     Alert Error [Lit ''VIN must be alpha-numeric and cannot include letters I, O, Q.'']"

definition incomplete_data :: "pystr \<Rightarrow> element" where
  "incomplete_data username =
     Alert Warning [Lit ''Incomplete vehicle data returned. '', Capitalized username,
                    Lit '', please verify the VIN and try again.'']"

definition decoding_failed :: "exn \<Rightarrow> element" where
  "decoding_failed e =
     Alert Error [Lit ''An error occurred while decoding the VIN: '', Str (str_of e)]"

definition vehicle_details :: "pystr \<Rightarrow> pystr option \<Rightarrow> pystr option \<Rightarrow> pystr option \<Rightarrow> element list" where
  "vehicle_details username year make' model =
     [Write [Lit ''Below are the vehicle details, '', Capitalized username, Lit '':''],
      Write [Str [128269], Lit '' Vehicle Information''],
      Write [Lit ''**Make:** '', Str (format make')],
      Write [Lit ''**Model:** '', Str (format model)],
      Write [Lit ''**Model Year:** '', Str (format year)]]"

text \<open>
  The body of the \<open>try\<close> statement (lines 43 to 59). The first component of the result is
  the exception that leaves the body, \<open>None\<close> when it runs to its end; the effects made
  before an exception stay.
\<close>

definition try_body ::
  "(pystr \<Rightarrow> outcome) \<Rightarrow> pystr \<Rightarrow> pystr \<Rightarrow> widgets \<Rightarrow> exn option \<times> widgets" where
  "try_body get_vehicle_info vin username w =
     (let w = w\<lparr>lookups := lookups w @ [vin]\<rparr> in
      case get_vehicle_info vin of
        Raised e \<Rightarrow> (Some e, w)
      | Returned year make' model \<Rightarrow>
          if \<not> list_all truthy [year, make', model]
             \<or> list_ex (\<lambda>v. v = None) [year, make', model]
          then (None, w\<lparr>status_area := Some (incomplete_data username)\<rparr>)
          else (None, w\<lparr>status_area := Some (Alert Success [Lit ''VIN decoded successfully!'']),
                         col1 := col1 w @ [Image ''car_image.png''],
                         col2 := col2 w @ vehicle_details username year make' model\<rparr>))"

text \<open>
  \<open>get_vin(vin, username)\<close>, started with the calls \<open>calls\<close> already made. The first
  component of the result is the exception that \<open>get_vin\<close> lets through to its caller,
  \<open>None\<close> when it returns.
\<close>

definition get_vin ::
  "(pystr \<Rightarrow> outcome) \<Rightarrow> pystr \<Rightarrow> pystr \<Rightarrow> pystr list \<Rightarrow> exn option \<times> widgets" where
  "get_vin get_vehicle_info vin username calls =
     (let w = \<lparr>status_area = None, col1 = [], col2 = [], lookups = calls\<rparr> in
      if length vin \<noteq> 17 then (None, w\<lparr>status_area := Some wrong_length\<rparr>)
      else if \<not> re_match_vin vin then (None, w\<lparr>status_area := Some wrong_alphabet\<rparr>)
      else
        (case try_body get_vehicle_info vin username
                (w\<lparr>status_area := Some (Alert Info [Lit ''Decoding VIN...''])\<rparr>) of
           (None, w') \<Rightarrow> (None, w')
         | (Some e, w') \<Rightarrow> (None, w'\<lparr>status_area := Some (decoding_failed e)\<rparr>)))"

section \<open>main\<close>


text \<open>
  One run of the script: \<open>name\<close> is what the name input returns, \<open>typed\<close> the text given
  to the VIN input, \<open>clicked\<close> what the button returns. The result is the page and the
  calls of the lookup.
\<close>

record page =
  elements :: "element list"
  calls :: "pystr list"







section \<open>Examples\<close>

text \<open>
  The VIN of the specification's example, a user name, and three lookups: one that
  answers with all three fields, one whose year is the empty string, one that raises.
\<close>

definition example_vin :: pystr where
  "example_vin = lit ''1HGCM82633A004352''"

definition sam :: pystr where
  "sam = lit ''sam''"

definition honda :: "pystr \<Rightarrow> outcome" where
  "honda vin = Returned (Some (lit ''2003'')) (Some (lit ''HONDA'')) (Some (lit ''Accord''))"

definition no_year :: "pystr \<Rightarrow> outcome" where
  "no_year vin = Returned (Some []) (Some (lit ''Honda'')) (Some (lit ''Accord''))"

definition timeout :: "pystr \<Rightarrow> outcome" where
  "timeout vin = Raised (Exception (lit ''Read timed out.''))"


section \<open>The pattern and the alphabet\<close>

lemma vin_class_alphabet: "vin_class c = (c \<in> spec_alphabet)"
  unfolding vin_class_def spec_alphabet_def between_def lit_def
  by (simp del: of_char_Char) (simp; arith)

lemma list_all_vin_class: "list_all vin_class vin = (set vin \<subseteq> spec_alphabet)"
  by (auto simp: list_all_iff vin_class_alphabet)

text \<open>
  On a string of length 17 the pattern matches exactly when every character is in the
  alphabet: after the length test the \<open>$\<close> of the pattern has no newline left to skip.
\<close>

lemma re_match_vin_17: "length vin = 17 \<Longrightarrow> re_match_vin vin = (set vin \<subseteq> spec_alphabet)"
  by (simp add: re_match_vin_def list_all_vin_class)

lemma example_vin_length: "length example_vin = 17"
  by (simp add: example_vin_def lit_def)

lemma example_vin_alphabet: "set example_vin \<subseteq> spec_alphabet"
  by (simp add: example_vin_def spec_alphabet_def lit_def)

section \<open>The four ways through get_vin\<close>

lemma get_vin_wrong_length:
  "length vin \<noteq> 17 \<Longrightarrow>
   get_vin g vin username cs =
     (None, \<lparr>status_area = Some wrong_length, col1 = [], col2 = [], lookups = cs\<rparr>)"
  by (simp add: get_vin_def)

lemma get_vin_wrong_alphabet:
  "length vin = 17 \<Longrightarrow> \<not> set vin \<subseteq> spec_alphabet \<Longrightarrow>
   get_vin g vin username cs =
     (None, \<lparr>status_area = Some wrong_alphabet, col1 = [], col2 = [], lookups = cs\<rparr>)"
  by (simp add: get_vin_def re_match_vin_17)

lemma get_vin_raised:
  "length vin = 17 \<Longrightarrow> set vin \<subseteq> spec_alphabet \<Longrightarrow> g vin = Raised e \<Longrightarrow>
   get_vin g vin username cs =
     (None, \<lparr>status_area = Some (decoding_failed e), col1 = [], col2 = [],
             lookups = cs @ [vin]\<rparr>)"
  by (simp add: get_vin_def re_match_vin_17 try_body_def Let_def)

lemma get_vin_returned:
  "length vin = 17 \<Longrightarrow> set vin \<subseteq> spec_alphabet \<Longrightarrow> g vin = Returned year make' model \<Longrightarrow>
   get_vin g vin username cs =
     (if truthy year \<and> truthy make' \<and> truthy model
      then (None, \<lparr>status_area = Some (Alert Success [Lit ''VIN decoded successfully!'']),
                   col1 = [Image ''car_image.png''],
                   col2 = vehicle_details username year make' model,
                   lookups = cs @ [vin]\<rparr>)
      else (None, \<lparr>status_area = Some (incomplete_data username), col1 = [], col2 = [],
                   lookups = cs @ [vin]\<rparr>))"
  by (auto simp: get_vin_def re_match_vin_17 try_body_def truthy_def Let_def
           split: option.splits)

lemma get_vin_accepted:
  assumes "length vin = 17" and "set vin \<subseteq> spec_alphabet"
  shows "\<exists>w. get_vin g vin username cs = (None, w)
             \<and> status_area w \<noteq> Some wrong_length \<and> status_area w \<noteq> Some wrong_alphabet
             \<and> lookups w = cs @ [vin]"
proof (cases "g vin")
  case (Raised e)
  with assms show ?thesis
    by (simp add: get_vin_raised decoding_failed_def wrong_length_def wrong_alphabet_def)
next
  case (Returned year make' model)
  with assms show ?thesis
    by (simp add: get_vin_returned incomplete_data_def wrong_length_def wrong_alphabet_def)
qed

section \<open>Format validation\<close>

text \<open>
  C1. A string of 17 characters, all of them in the alphabet \<open>A-H, J-N, P, R-Z, 0-9\<close>, is
  accepted by \<open>get_vin\<close>: neither format error is shown, and the lookup
  \<open>get_vehicle_info\<close> is called exactly once, with that string.
\<close>

theorem valid_vin_accepted_and_looked_up_once:
  assumes "length vin = 17" and "set vin \<subseteq> spec_alphabet"
  shows "\<exists>w. get_vin g vin username cs = (None, w)
             \<and> status_area w \<noteq> Some wrong_length \<and> status_area w \<noteq> Some wrong_alphabet
             \<and> lookups w = cs @ [vin]"
  using assms by (rule get_vin_accepted)

theorem valid_vin_accepted_and_looked_up_once_witness:
  "length example_vin = 17 \<and> set example_vin \<subseteq> spec_alphabet
   \<and> (\<exists>w. get_vin honda example_vin sam [] = (None, w)
           \<and> status_area w \<noteq> Some wrong_length \<and> status_area w \<noteq> Some wrong_alphabet
           \<and> lookups w = [example_vin])"
  using valid_vin_accepted_and_looked_up_once
          [OF example_vin_length example_vin_alphabet, of honda sam "[]"]
        example_vin_length example_vin_alphabet
  by simp

text \<open>
  C2. A string whose length is not 17 is rejected with the wrong-length error, nothing
  else is rendered, and the lookup is not called.
\<close>

theorem wrong_length_rejected_without_lookup:
  assumes "length vin \<noteq> 17"
  shows "get_vin g vin username cs =
           (None, \<lparr>status_area = Some wrong_length, col1 = [], col2 = [], lookups = cs\<rparr>)"
  using assms by (rule get_vin_wrong_length)

theorem wrong_length_rejected_without_lookup_witness:
  "length (lit ''1HGCM82633A00435'') \<noteq> 17
   \<and> get_vin honda (lit ''1HGCM82633A00435'') sam [] =
       (None, \<lparr>status_area = Some wrong_length, col1 = [], col2 = [], lookups = []\<rparr>)"
proof -
  have h: "length (lit ''1HGCM82633A00435'') \<noteq> 17"
    by (simp add: lit_def)
  show ?thesis
    using h wrong_length_rejected_without_lookup [OF h, of honda sam "[]"] by simp
qed

text \<open>
  C3. A string of 17 characters one of which is \<open>I\<close>, \<open>O\<close> or \<open>Q\<close>, or any other character
  outside the alphabet, is rejected with the alphabet error, nothing else is rendered,
  and the lookup is not called.
\<close>

theorem disallowed_character_rejected_without_lookup:
  assumes "length vin = 17" and "c \<in> set vin"
    and "c \<in> set (lit ''IOQ'') \<or> c \<notin> spec_alphabet"
  shows "get_vin g vin username cs =
           (None, \<lparr>status_area = Some wrong_alphabet, col1 = [], col2 = [], lookups = cs\<rparr>)"
proof -
  have "set (lit ''IOQ'') \<inter> spec_alphabet = {}"
    by (simp add: lit_def spec_alphabet_def)
  with assms(3) have "c \<notin> spec_alphabet"
    by blast
  with assms(2) have "\<not> set vin \<subseteq> spec_alphabet"
    by blast
  with assms(1) show ?thesis
    by (rule get_vin_wrong_alphabet)
qed

theorem disallowed_character_rejected_without_lookup_witness:
  "length (lit ''1HGCM82633A00435Q'') = 17
   \<and> of_char CHR ''Q'' \<in> set (lit ''1HGCM82633A00435Q'')
   \<and> of_char CHR ''Q'' \<in> set (lit ''IOQ'')
   \<and> get_vin honda (lit ''1HGCM82633A00435Q'') sam [] =
       (None, \<lparr>status_area = Some wrong_alphabet, col1 = [], col2 = [], lookups = []\<rparr>)"
proof -
  have h1: "length (lit ''1HGCM82633A00435Q'') = 17"
    by (simp add: lit_def)
  have h2: "of_char CHR ''Q'' \<in> set (lit ''1HGCM82633A00435Q'')"
    by (simp add: lit_def)
  have h3: "of_char CHR ''Q'' \<in> set (lit ''IOQ'')"
    by (simp add: lit_def)
  show ?thesis
    using h1 h2 h3
      disallowed_character_rejected_without_lookup [OF h1 h2 disjI1 [OF h3], of honda sam "[]"]
    by simp
qed

text \<open>
  C7. The length is tested before the alphabet: a string whose length is not 17 gets the
  wrong-length error whatever its characters are, and the alphabet error appears only
  for strings of length exactly 17.
\<close>

theorem length_checked_before_alphabet:
  "(length vin \<noteq> 17 \<longrightarrow> status_area (snd (get_vin g vin username cs)) = Some wrong_length)
   \<and> (status_area (snd (get_vin g vin username cs)) = Some wrong_alphabet \<longrightarrow> length vin = 17)"
proof (cases "length vin = 17")
  case True
  then show ?thesis by simp
next
  case False
  then show ?thesis
    by (simp add: get_vin_wrong_length wrong_length_def wrong_alphabet_def)
qed

theorem length_checked_before_alphabet_witness:
  "length (lit ''QQ'') \<noteq> 17 \<and> \<not> set (lit ''QQ'') \<subseteq> spec_alphabet
   \<and> status_area (snd (get_vin honda (lit ''QQ'') sam [])) = Some wrong_length
   \<and> status_area (snd (get_vin honda (lit ''1HGCM82633A00435Q'') sam [])) = Some wrong_alphabet
   \<and> length (lit ''1HGCM82633A00435Q'') = 17"
proof -
  have h1: "length (lit ''QQ'') \<noteq> 17" "\<not> set (lit ''QQ'') \<subseteq> spec_alphabet"
    by (simp_all add: lit_def spec_alphabet_def)
  have h2: "status_area (snd (get_vin honda (lit ''1HGCM82633A00435Q'') sam [])) =
              Some wrong_alphabet"
    by (simp add: get_vin_wrong_alphabet lit_def spec_alphabet_def)
  show ?thesis
    using h1 h2 length_checked_before_alphabet [of "lit ''QQ''" honda sam "[]"]
      length_checked_before_alphabet [of "lit ''1HGCM82633A00435Q''" honda sam "[]"]
    by simp
qed

section \<open>Rendering the answer of the lookup\<close>



text \<open>
  C8. A field that is the empty string counts as missing just as \<open>None\<close> does. A field
  is truthy exactly when it is neither \<open>None\<close> nor the empty string; for an accepted VIN
  and a lookup that returns, the details (the success message, the image, and the lines
  with make, model and year) are rendered exactly when year, make and model are all
  truthy, and the incomplete-data message is shown exactly when one of them is not.
\<close>

theorem empty_string_field_counts_as_missing:
  assumes "length vin = 17" and "set vin \<subseteq> spec_alphabet"
    and "g vin = Returned year make' model"
  shows "truthy v = (v \<noteq> None \<and> v \<noteq> Some [])
         \<and> (truthy year \<and> truthy make' \<and> truthy model) =
             (\<exists>y m d. year = Some y \<and> make' = Some m \<and> model = Some d
                \<and> get_vin g vin username cs =
                    (None, \<lparr>status_area = Some (Alert Success [Lit ''VIN decoded successfully!'']),
                            col1 = [Image ''car_image.png''],
                            col2 = [Write [Lit ''Below are the vehicle details, '',
                                           Capitalized username, Lit '':''],
                                    Write [Str [128269], Lit '' Vehicle Information''],
                                    Write [Lit ''**Make:** '', Str m],
                                    Write [Lit ''**Model:** '', Str d],
                                    Write [Lit ''**Model Year:** '', Str y]],
                            lookups = cs @ [vin]\<rparr>))
         \<and> (\<not> (truthy year \<and> truthy make' \<and> truthy model)) =
             (get_vin g vin username cs =
                (None, \<lparr>status_area =
                          Some (Alert Warning [Lit ''Incomplete vehicle data returned. '',
                                               Capitalized username,
                                               Lit '', please verify the VIN and try again.'']),
                        col1 = [], col2 = [], lookups = cs @ [vin]\<rparr>))"
proof (intro conjI)
  show "truthy v = (v \<noteq> None \<and> v \<noteq> Some [])"
    by (cases v) (simp_all add: truthy_def)
next
  show "(truthy year \<and> truthy make' \<and> truthy model) =
          (\<exists>y m d. year = Some y \<and> make' = Some m \<and> model = Some d
             \<and> get_vin g vin username cs =
                 (None, \<lparr>status_area = Some (Alert Success [Lit ''VIN decoded successfully!'']),
                         col1 = [Image ''car_image.png''],
                         col2 = [Write [Lit ''Below are the vehicle details, '',
                                        Capitalized username, Lit '':''],
                                 Write [Str [128269], Lit '' Vehicle Information''],
                                 Write [Lit ''**Make:** '', Str m],
                                 Write [Lit ''**Model:** '', Str d],
                                 Write [Lit ''**Model Year:** '', Str y]],
                         lookups = cs @ [vin]\<rparr>))"
  proof (cases "truthy year \<and> truthy make' \<and> truthy model")
    case True
    then obtain y m d where "year = Some y" and "make' = Some m" and "model = Some d"
      by (auto simp: truthy_def split: option.splits)
    with True assms show ?thesis
      by (simp add: get_vin_returned vehicle_details_def format_def)
  next
    case False
    with assms show ?thesis
      by (auto simp: get_vin_returned)
  qed
next
  show "(\<not> (truthy year \<and> truthy make' \<and> truthy model)) =
          (get_vin g vin username cs =
             (None, \<lparr>status_area =
                       Some (Alert Warning [Lit ''Incomplete vehicle data returned. '',
                                            Capitalized username,
                                            Lit '', please verify the VIN and try again.'']),
                     col1 = [], col2 = [], lookups = cs @ [vin]\<rparr>))"
    using assms by (simp add: get_vin_returned incomplete_data_def)
qed

theorem empty_string_field_counts_as_missing_witness:
  "no_year example_vin = Returned (Some []) (Some (lit ''Honda'')) (Some (lit ''Accord''))
   \<and> \<not> truthy (Some [])
   \<and> get_vin no_year example_vin sam [] =
       (None, \<lparr>status_area =
                 Some (Alert Warning [Lit ''Incomplete vehicle data returned. '',
                                      Capitalized sam,
                                      Lit '', please verify the VIN and try again.'']),
               col1 = [], col2 = [], lookups = [example_vin]\<rparr>)"
proof -
  have h: "no_year example_vin = Returned (Some []) (Some (lit ''Honda'')) (Some (lit ''Accord''))"
    by (simp add: no_year_def)
  note t = empty_string_field_counts_as_missing
             [of example_vin no_year "Some []" "Some (lit ''Honda'')" "Some (lit ''Accord'')"
                 "Some []" sam "[]", OF example_vin_length example_vin_alphabet h]
  from t have a: "\<not> truthy (Some [])"
    by simp
  with t have "get_vin no_year example_vin sam [] =
       (None, \<lparr>status_area =
                 Some (Alert Warning [Lit ''Incomplete vehicle data returned. '',
                                      Capitalized sam,
                                      Lit '', please verify the VIN and try again.'']),
               col1 = [], col2 = [], lookups = [example_vin]\<rparr>)"
    by simp
  with h a show ?thesis
    by simp
qed

section \<open>Failures\<close>

text \<open>
  C5. When the lookup raises for an accepted VIN, \<open>get_vin\<close> shows the error message
  that carries the text of the exception, has called the lookup once and not again, and
  renders nothing in the two columns.
\<close>

theorem lookup_exception_reported_without_retry:
  assumes "length vin = 17" and "set vin \<subseteq> spec_alphabet" and "g vin = Raised e"
  shows "get_vin g vin username cs =
           (None, \<lparr>status_area =
                     Some (Alert Error [Lit ''An error occurred while decoding the VIN: '',
                                        Str (str_of e)]),
                   col1 = [], col2 = [], lookups = cs @ [vin]\<rparr>)"
  using assms by (simp add: get_vin_raised decoding_failed_def)

theorem lookup_exception_reported_without_retry_witness:
  "get_vin timeout example_vin sam [] =
     (None, \<lparr>status_area =
               Some (Alert Error [Lit ''An error occurred while decoding the VIN: '',
                                  Str (lit ''Read timed out.'')]),
             col1 = [], col2 = [], lookups = [example_vin]\<rparr>)"
  using lookup_exception_reported_without_retry
          [OF example_vin_length example_vin_alphabet,
           of timeout "Exception (lit ''Read timed out.'')" sam "[]"]
  by (simp add: timeout_def)



section \<open>Normalisation in main\<close>













end
